theory Spec2Isabelle
  imports Main "HOL-Library.Word" "HOL-Library.AList"
begin

unbundle bit_operations_syntax

section \<open>Go values: bytes, errors, panics\<close>

text \<open>
  The codec of \<^verbatim>\<open>spdy.go\<close> works on \<^verbatim>\<open>[]byte\<close>, \<^verbatim>\<open>byte\<close>, \<^verbatim>\<open>uint16\<close>
  and \<^verbatim>\<open>uint32\<close>. A byte slice is a list of 8-bit words; a slice handed to
  \<^verbatim>\<open>Parse\<close> has its capacity equal to its length (as \<^verbatim>\<open>make([]byte, n)\<close> and
  slice literals give), so that an index and a slice bound are checked against
  the length of the list. Go's \<^verbatim>\<open>int\<close> is 64 bits wide; the lengths and the
  sums of a length and a 32-bit value that the codec computes stay far below
  \<open>2 ^ 63\<close>, so they are integers here.
\<close>

type_synonym byte = "8 word"
type_synonym uint16 = "16 word"
type_synonym uint32 = "32 word"

text \<open>The error values of the package: the two structs of \<^verbatim>\<open>spdy.go\<close>, the
  cancellation error of the stream, and \<^verbatim>\<open>errors.New\<close>.\<close>

datatype error =
    IncorrectDataLength int int
  | InvalidField string int int
  | ErrCancelled
  | ErrorNew string

text \<open>A call of a Go function either returns or panics. The run-time panics
  that the modelled code can raise are an index out of range, slice bounds out
  of range and a nil pointer dereference; \<^verbatim>\<open>panic(err)\<close> and
  \<^verbatim>\<open>panic(fmt.Sprintf(...))\<close> are explicit.\<close>

datatype panic =
    IndexOutOfRange
  | SliceBoundsOutOfRange
  | NilPointerDereference
  | PanicError error
  | PanicMessage string

datatype 'a outcome = Panics panic | Returns 'a

definition andThen :: "'a outcome \<Rightarrow> ('a \<Rightarrow> 'b outcome) \<Rightarrow> 'b outcome" where
  "andThen m k = (case m of Panics p \<Rightarrow> Panics p | Returns v \<Rightarrow> k v)"

text \<open>\<^verbatim>\<open>data[i]\<close>, \<^verbatim>\<open>data[lo:hi]\<close> and \<^verbatim>\<open>out[i] = v\<close>, with Go's bounds
  checks.\<close>

definition index :: "byte list \<Rightarrow> nat \<Rightarrow> byte outcome" where
  "index d i = (if i < length d then Returns (d ! i) else Panics IndexOutOfRange)"

definition slice :: "byte list \<Rightarrow> nat \<Rightarrow> nat \<Rightarrow> byte list outcome" where
  "slice d lo hi =
     (if hi \<le> length d \<and> lo \<le> hi then Returns (take (hi - lo) (drop lo d))
      else Panics SliceBoundsOutOfRange)"

definition store :: "byte list \<Rightarrow> nat \<Rightarrow> byte \<Rightarrow> byte list outcome" where
  "store out i v = (if i < length out then Returns (out[i := v]) else Panics IndexOutOfRange)"

text \<open>A run of assignments \<^verbatim>\<open>out[i] = v\<close>, in the order written.\<close>

fun assign :: "byte list \<Rightarrow> (nat \<times> byte) list \<Rightarrow> byte list outcome" where
  "assign out [] = Returns out"
| "assign out ((i, v) # rest) = andThen (store out i v) (\<lambda>out'. assign out' rest)"

text \<open>\<^verbatim>\<open>make([]byte, n)\<close>.\<close>

definition make_bytes :: "nat \<Rightarrow> byte list" where
  "make_bytes n = replicate n 0"

subsection \<open>Big-endian readers\<close>

definition bytesToUint16 :: "byte list \<Rightarrow> uint32 outcome" where
  "bytesToUint16 b =
     andThen (index b 0) (\<lambda>b0.
     andThen (index b 1) (\<lambda>b1.
     Returns (push_bit 8 (ucast b0) + ucast b1)))"

definition bytesToUint24 :: "byte list \<Rightarrow> uint32 outcome" where
  "bytesToUint24 b =
     andThen (index b 0) (\<lambda>b0.
     andThen (index b 1) (\<lambda>b1.
     andThen (index b 2) (\<lambda>b2.
     Returns (push_bit 16 (ucast b0) + push_bit 8 (ucast b1) + ucast b2))))"

definition bytesToUint32 :: "byte list \<Rightarrow> uint32 outcome" where
  "bytesToUint32 b =
     andThen (index b 0) (\<lambda>b0.
     andThen (index b 1) (\<lambda>b1.
     andThen (index b 2) (\<lambda>b2.
     andThen (index b 3) (\<lambda>b3.
     Returns (push_bit 24 (ucast b0) + push_bit 16 (ucast b1) + push_bit 8 (ucast b2)
              + ucast b3)))))"

definition bytesToUint31 :: "byte list \<Rightarrow> uint32 outcome" where
  "bytesToUint31 b =
     andThen (index b 0) (\<lambda>b0.
     andThen (index b 1) (\<lambda>b1.
     andThen (index b 2) (\<lambda>b2.
     andThen (index b 3) (\<lambda>b3.
     Returns (push_bit 24 (ucast (b0 AND 0x7f)) + push_bit 16 (ucast b1)
              + push_bit 8 (ucast b2) + ucast b3)))))"

text \<open>Expressions that every \<^verbatim>\<open>Parse\<close> repeats. \<^verbatim>\<open>data[2] != 0 || data[3] != t\<close>
  reads \<^verbatim>\<open>data[3]\<close> only when \<^verbatim>\<open>data[2]\<close> is zero;
  \<^verbatim>\<open>(uint16(data[0]&0x7f) << 8) + uint16(data[1])\<close> is the version;
  \<^verbatim>\<open>int(bytesToUintN(data[lo:hi]))\<close> converts a field to \<^verbatim>\<open>int\<close>.\<close>

definition wrongType :: "byte list \<Rightarrow> byte \<Rightarrow> bool outcome" where
  "wrongType d t =
     andThen (index d 2) (\<lambda>b2.
     if b2 \<noteq> 0 then Returns True
     else andThen (index d 3) (\<lambda>b3. Returns (b3 \<noteq> t)))"

definition readVersion :: "byte list \<Rightarrow> uint16 outcome" where
  "readVersion d =
     andThen (index d 0) (\<lambda>b0.
     andThen (index d 1) (\<lambda>b1.
     Returns (push_bit 8 (ucast (b0 AND 0x7f)) + ucast b1)))"

definition intField :: "(byte list \<Rightarrow> uint32 outcome) \<Rightarrow> byte list \<Rightarrow> nat \<Rightarrow> nat \<Rightarrow> int outcome" where
  "intField rd d lo hi =
     andThen (slice d lo hi) (\<lambda>b. andThen (rd b) (\<lambda>w. Returns (uint w)))"

section \<open>Frames\<close>

record RstStreamFrame =
  Version :: uint16
  Flags :: byte
  StreamID :: uint32
  StatusCode :: uint32

record Setting =
  Flags :: byte
  ID :: uint32
  Value :: uint32

record SettingsFrame =
  Version :: uint16
  Flags :: byte
  Settings :: "Setting list"

record PingFrame =
  Version :: uint16
  PingID :: uint32

record GoawayFrame =
  Version :: uint16
  LastGoodStreamID :: uint32
  StatusCode :: uint32

record WindowUpdateFrame =
  Version :: uint16
  StreamID :: uint32
  DeltaWindowSize :: uint32

record DataFrame =
  StreamID :: uint32
  Flags :: byte
  Data :: "byte list"

subsection \<open>RST\_STREAM\<close>

definition RstStreamFrame_Parse :: "byte list \<Rightarrow> (error + RstStreamFrame) outcome" where
  "RstStreamFrame_Parse d =
     (let len = int (length d) in
      if len \<noteq> 8 then Returns (Inl (IncorrectDataLength len 8))
      else
        andThen (index d 0) (\<lambda>b0.
        if b0 AND 0x80 = 0 then Returns (Inl (InvalidField ''Control bit'' 0 1))
        else
          andThen (wrongType d 3) (\<lambda>wrong.
          if wrong then
            andThen (intField bytesToUint16 d 2 4) (\<lambda>t. Returns (Inl (InvalidField ''Type'' t 3)))
          else
            andThen (index d 8) (\<lambda>b8.
            if drop_bit 7 b8 \<noteq> 0 then Returns (Inl (InvalidField ''Unused'' 1 0))
            else
              andThen (slice d 5 8) (\<lambda>l.
              andThen (bytesToUint24 l) (\<lambda>declared.
              if declared \<noteq> 8 then Returns (Inl (InvalidField ''Length'' (uint declared) 8))
              else
                andThen (readVersion d) (\<lambda>v.
                andThen (index d 4) (\<lambda>fl.
                andThen (slice d 8 12) (\<lambda>s1.
                andThen (bytesToUint31 s1) (\<lambda>sid.
                andThen (slice d 12 16) (\<lambda>s2.
                andThen (bytesToUint32 s2) (\<lambda>code.
                Returns (Inr \<lparr>RstStreamFrame.Version = v, Flags = fl, StreamID = sid,
                               StatusCode = code\<rparr>)))))))))))))"

definition RstStreamFrame_Bytes :: "RstStreamFrame \<Rightarrow> byte list outcome" where
  "RstStreamFrame_Bytes frame =
     assign (make_bytes 8)
       [(0, 0x80 OR ucast (drop_bit 8 (RstStreamFrame.Version frame))),
        (1, ucast (RstStreamFrame.Version frame)),
        (2, 0),
        (3, 3),
        (4, RstStreamFrame.Flags frame),
        (5, 0),
        (6, 0),
        (7, 8),
        (8, ucast (drop_bit 24 (RstStreamFrame.StreamID frame)) AND 0x7f),
        (9, ucast (drop_bit 16 (RstStreamFrame.StreamID frame))),
        (10, ucast (drop_bit 8 (RstStreamFrame.StreamID frame))),
        (11, ucast (RstStreamFrame.StreamID frame)),
        (12, ucast (drop_bit 24 (RstStreamFrame.StatusCode frame))),
        (13, ucast (drop_bit 16 (RstStreamFrame.StatusCode frame))),
        (14, ucast (drop_bit 8 (RstStreamFrame.StatusCode frame))),
        (15, ucast (RstStreamFrame.StatusCode frame))]"

subsection \<open>SETTINGS\<close>

text \<open>The loop of \<^verbatim>\<open>SettingsFrame.Parse\<close>: \<open>n\<close> settings of eight bytes each, read
  from \<open>offset\<close> on.\<close>

fun parseSettings :: "byte list \<Rightarrow> nat \<Rightarrow> nat \<Rightarrow> Setting list outcome" where
  "parseSettings d offset 0 = Returns []"
| "parseSettings d offset (Suc n) =
     andThen (index d offset) (\<lambda>fl.
     andThen (slice d (offset + 1) (offset + 4)) (\<lambda>s1.
     andThen (bytesToUint24 s1) (\<lambda>sid.
     andThen (slice d (offset + 4) (offset + 8)) (\<lambda>s2.
     andThen (bytesToUint32 s2) (\<lambda>val.
     andThen (parseSettings d (offset + 8) n) (\<lambda>rest.
     Returns (\<lparr>Setting.Flags = fl, ID = sid, Value = val\<rparr> # rest)))))))"

text \<open>\<^verbatim>\<open>SettingsFrame.Parse\<close> reads \<^verbatim>\<open>data[8:12]\<close> before it looks at the length.
  Its first error names \<^verbatim>\<open>size\<close>, which the source does not declare; the
  sibling functions pass \<^verbatim>\<open>length\<close> there, and so does the model.\<close>

definition SettingsFrame_Parse :: "byte list \<Rightarrow> (error + SettingsFrame) outcome" where
  "SettingsFrame_Parse d =
     (let len = int (length d) in
      andThen (intField bytesToUint32 d 8 12) (\<lambda>numSettings.
      if len < 12 then Returns (Inl (IncorrectDataLength len 12))
      else
        andThen (intField bytesToUint24 d 5 8) (\<lambda>declared.
        if len \<noteq> 8 + declared then Returns (Inl (IncorrectDataLength len (8 + declared)))
        else if len < 12 + 8 * numSettings
          then Returns (Inl (IncorrectDataLength len (12 + 8 * numSettings)))
        else
          andThen (index d 0) (\<lambda>b0.
          if b0 AND 0x80 = 0 then Returns (Inl (InvalidField ''Control bit'' 0 1))
          else
            andThen (wrongType d 4) (\<lambda>wrong.
            if wrong then
              andThen (index d 2) (\<lambda>b2.
              andThen (index d 3) (\<lambda>b3.
              Returns (Inl (InvalidField ''Type'' (uint b2 * 256 + uint b3) 4))))
            else
              andThen (readVersion d) (\<lambda>v.
              andThen (index d 4) (\<lambda>fl.
              andThen (parseSettings d 12 (nat numSettings)) (\<lambda>settings.
              Returns (Inr \<lparr>SettingsFrame.Version = v, Flags = fl, Settings = settings\<rparr>)))))))))"

subsection \<open>PING\<close>

definition PingFrame_Parse :: "byte list \<Rightarrow> (error + PingFrame) outcome" where
  "PingFrame_Parse d =
     (let len = int (length d) in
      if len \<noteq> 12 then Returns (Inl (IncorrectDataLength len 12))
      else
        andThen (index d 0) (\<lambda>b0.
        if b0 AND 0x80 = 0 then Returns (Inl (InvalidField ''Control bit'' 0 1))
        else
          andThen (wrongType d 6) (\<lambda>wrong.
          if wrong then
            andThen (index d 2) (\<lambda>b2.
            andThen (index d 3) (\<lambda>b3.
            Returns (Inl (InvalidField ''Type'' (uint b2 * 256 + uint b3) 6))))
          else
            andThen (index d 4) (\<lambda>fl.
            if fl \<noteq> 0 then Returns (Inl (InvalidField ''Flags'' (uint fl) 0))
            else
              andThen (slice d 5 8) (\<lambda>l.
              andThen (bytesToUint24 l) (\<lambda>declared.
              if declared \<noteq> 4 then Returns (Inl (InvalidField ''Length'' (uint declared) 4))
              else
                andThen (readVersion d) (\<lambda>v.
                andThen (slice d 8 12) (\<lambda>s1.
                andThen (bytesToUint32 s1) (\<lambda>pid.
                Returns (Inr \<lparr>PingFrame.Version = v, PingID = pid\<rparr>))))))))))"

definition PingFrame_Bytes :: "PingFrame \<Rightarrow> byte list outcome" where
  "PingFrame_Bytes frame =
     assign (make_bytes 12)
       [(0, 0x80 OR ucast (drop_bit 8 (PingFrame.Version frame))),
        (1, ucast (PingFrame.Version frame)),
        (2, 0),
        (3, 6),
        (4, 0),
        (5, 0),
        (6, 0),
        (7, 4),
        (8, ucast (drop_bit 24 (PingID frame))),
        (9, ucast (drop_bit 16 (PingID frame))),
        (10, ucast (drop_bit 8 (PingID frame))),
        (11, ucast (PingID frame))]"

subsection \<open>GOAWAY\<close>

definition GoawayFrame_Parse :: "byte list \<Rightarrow> (error + GoawayFrame) outcome" where
  "GoawayFrame_Parse d =
     (let len = int (length d) in
      if len \<noteq> 16 then Returns (Inl (IncorrectDataLength len 16))
      else
        andThen (index d 0) (\<lambda>b0.
        if b0 AND 0x80 = 0 then Returns (Inl (InvalidField ''Control bit'' 0 1))
        else
          andThen (wrongType d 7) (\<lambda>wrong.
          if wrong then
            andThen (intField bytesToUint16 d 2 4) (\<lambda>t. Returns (Inl (InvalidField ''Type'' t 7)))
          else
            andThen (index d 8) (\<lambda>b8.
            if drop_bit 7 b8 \<noteq> 0 then Returns (Inl (InvalidField ''Unused'' 1 0))
            else
              andThen (index d 4) (\<lambda>fl.
              if fl \<noteq> 0 then Returns (Inl (InvalidField ''Flags'' (uint fl) 0))
              else
                andThen (slice d 5 8) (\<lambda>l.
                andThen (bytesToUint24 l) (\<lambda>declared.
                if declared \<noteq> 8 then Returns (Inl (InvalidField ''Length'' (uint declared) 8))
                else
                  andThen (readVersion d) (\<lambda>v.
                  andThen (slice d 8 12) (\<lambda>s1.
                  andThen (bytesToUint31 s1) (\<lambda>sid.
                  andThen (slice d 12 16) (\<lambda>s2.
                  andThen (bytesToUint32 s2) (\<lambda>code.
                  Returns (Inr \<lparr>GoawayFrame.Version = v, LastGoodStreamID = sid,
                                 StatusCode = code\<rparr>)))))))))))))"

definition GoawayFrame_Bytes :: "GoawayFrame \<Rightarrow> byte list outcome" where
  "GoawayFrame_Bytes frame =
     assign (make_bytes 16)
       [(0, 0x80 OR ucast (drop_bit 8 (GoawayFrame.Version frame))),
        (1, ucast (GoawayFrame.Version frame)),
        (2, 0),
        (3, 7),
        (4, 0),
        (5, 0),
        (6, 0),
        (7, 8),
        (8, ucast (drop_bit 24 (LastGoodStreamID frame)) AND 0x7f),
        (9, ucast (drop_bit 16 (LastGoodStreamID frame))),
        (10, ucast (drop_bit 8 (LastGoodStreamID frame))),
        (11, ucast (LastGoodStreamID frame)),
        (12, ucast (drop_bit 24 (GoawayFrame.StatusCode frame))),
        (13, ucast (drop_bit 16 (GoawayFrame.StatusCode frame))),
        (14, ucast (drop_bit 8 (GoawayFrame.StatusCode frame))),
        (15, ucast (GoawayFrame.StatusCode frame))]"

subsection \<open>WINDOW\_UPDATE\<close>

definition WindowUpdateFrame_Parse :: "byte list \<Rightarrow> (error + WindowUpdateFrame) outcome" where
  "WindowUpdateFrame_Parse d =
     (let len = int (length d) in
      if len < 12 then Returns (Inl (IncorrectDataLength len 12))
      else
        andThen (index d 0) (\<lambda>b0.
        if b0 AND 0x80 = 0 then Returns (Inl (InvalidField ''Control bit'' 0 1))
        else
          andThen (wrongType d 9) (\<lambda>wrong.
          if wrong then
            andThen (intField bytesToUint16 d 2 4) (\<lambda>t. Returns (Inl (InvalidField ''Type'' t 9)))
          else
            andThen (index d 8) (\<lambda>b8.
            andThen (index d 12) (\<lambda>b12.
            if drop_bit 7 b8 OR drop_bit 7 b12 \<noteq> 0
              then Returns (Inl (InvalidField ''Unused'' 1 0))
            else
              andThen (slice d 5 8) (\<lambda>l.
              andThen (bytesToUint24 l) (\<lambda>declared.
              if declared \<noteq> 8 then Returns (Inl (InvalidField ''Length'' (uint declared) 8))
              else
                andThen (readVersion d) (\<lambda>v.
                andThen (slice d 8 12) (\<lambda>s1.
                andThen (bytesToUint31 s1) (\<lambda>sid.
                andThen (slice d 12 16) (\<lambda>s2.
                andThen (bytesToUint32 s2) (\<lambda>delta.
                Returns (Inr \<lparr>WindowUpdateFrame.Version = v, StreamID = sid,
                               DeltaWindowSize = delta AND 0x7f\<rparr>)))))))))))))"

text \<open>The first of the two methods that the source declares as
  \<^verbatim>\<open>WindowUpdateFrame.Bytes\<close>: the encoder of WINDOW\_UPDATE. It makes a slice of
  12 bytes and assigns 16.\<close>

definition WindowUpdateFrame_Bytes :: "WindowUpdateFrame \<Rightarrow> byte list outcome" where
  "WindowUpdateFrame_Bytes frame =
     assign (make_bytes 12)
       [(0, 0x80 OR ucast (drop_bit 8 (WindowUpdateFrame.Version frame))),
        (1, ucast (WindowUpdateFrame.Version frame)),
        (2, 0),
        (3, 8),
        (4, 0),
        (5, 0),
        (6, 0),
        (7, 8),
        (8, ucast (drop_bit 24 (WindowUpdateFrame.StreamID frame)) AND 0x7f),
        (9, ucast (drop_bit 16 (WindowUpdateFrame.StreamID frame))),
        (10, ucast (drop_bit 8 (WindowUpdateFrame.StreamID frame))),
        (11, ucast (WindowUpdateFrame.StreamID frame)),
        (12, ucast (drop_bit 24 (DeltaWindowSize frame)) AND 0x7f),
        (13, ucast (drop_bit 16 (DeltaWindowSize frame))),
        (14, ucast (drop_bit 8 (DeltaWindowSize frame))),
        (15, ucast (DeltaWindowSize frame))]"

subsection \<open>DATA\<close>

definition DataFrame_Parse :: "byte list \<Rightarrow> (error + DataFrame) outcome" where
  "DataFrame_Parse d =
     (let len = int (length d) in
      if len < 8 then Returns (Inl (IncorrectDataLength len 8))
      else
        andThen (intField bytesToUint16 d 2 4) (\<lambda>n.
        if len < 8 + n then Returns (Inl (IncorrectDataLength len (8 + n)))
        else
          andThen (index d 0) (\<lambda>b0.
          if b0 AND 0x80 = 1 then Returns (Inl (InvalidField ''Control bit'' 1 0))
          else
            andThen (slice d 0 4) (\<lambda>s1.
            andThen (bytesToUint31 s1) (\<lambda>sid.
            andThen (index d 4) (\<lambda>fl.
            andThen (intField bytesToUint16 d 2 4) (\<lambda>length'.
            andThen (slice d 8 (8 + nat length')) (\<lambda>payload.
            Returns (Inr \<lparr>DataFrame.StreamID = sid, Flags = fl, Data = payload\<rparr>)))))))))"

text \<open>The second method that the source declares as \<^verbatim>\<open>WindowUpdateFrame.Bytes\<close>
  reads \<^verbatim>\<open>frame.Data\<close> and \<^verbatim>\<open>frame.Flags\<close>, fields of \<^verbatim>\<open>DataFrame\<close> only: it is
  the encoder of DATA. \<^verbatim>\<open>byte(length >> k)\<close> keeps the low eight bits.\<close>

definition DataFrame_Bytes :: "DataFrame \<Rightarrow> byte list outcome" where
  "DataFrame_Bytes frame =
     (let len = int (length (Data frame)) in
      andThen (assign (make_bytes 8)
        [(0, ucast (drop_bit 24 (DataFrame.StreamID frame)) AND 0x7f),
         (1, ucast (drop_bit 16 (DataFrame.StreamID frame))),
         (2, ucast (drop_bit 8 (DataFrame.StreamID frame))),
         (3, ucast (DataFrame.StreamID frame)),
         (4, DataFrame.Flags frame),
         (5, word_of_int (drop_bit 16 len)),
         (6, word_of_int (drop_bit 8 len)),
         (7, word_of_int len)])
      (\<lambda>out. Returns (out @ Data frame)))"

section \<open>Streams\<close>

text \<open>
  The stream file declares \<^verbatim>\<open>s.headers\<close> with the type \<^verbatim>\<open>Header\<close> and calls its
  methods \<^verbatim>\<open>Set\<close> and \<^verbatim>\<open>Update\<close>; the frames it builds carry that type in
  \<^verbatim>\<open>Headers\<close>. A header mapping is an association list with one entry per name.
\<close>

type_synonym Header = "(string \<times> string) list"

text \<open>Modelled from the spec: \<^verbatim>\<open>Header.Set\<close> is not under src/. The spec gives the
  mapping set semantics per name: a later value replaces the earlier one.\<close>

definition Header_Set :: "string \<Rightarrow> string \<Rightarrow> Header \<Rightarrow> Header" where
  "Header_Set name v h = AList.update name v h"

text \<open>Modelled from the spec: \<^verbatim>\<open>Header.Update\<close> is not under src/. The spec says that
  it merges header fields into the accumulated mapping, later values winning.\<close>

definition Header_Update :: "Header \<Rightarrow> Header \<Rightarrow> Header" where
  "Header_Update other h = foldl (\<lambda>acc (name, v). Header_Set name v acc) h other"

text \<open>Modelled from the spec: the constants \<^verbatim>\<open>FLAG_FIN\<close>, \<^verbatim>\<open>RST_STREAM_CANCEL\<close> and
  \<^verbatim>\<open>RST_STREAM_FLOW_CONTROL_ERROR\<close> are declared outside src/. The spec names them
  (the FIN flag, a cancellation status, a flow-control-error status) without
  their values; the values here are those of SPDY/3.\<close>

definition FLAG_FIN :: byte where
  "FLAG_FIN = 1"

definition RST_STREAM_CANCEL :: uint32 where
  "RST_STREAM_CANCEL = 5"

definition RST_STREAM_FLOW_CONTROL_ERROR :: uint32 where
  "RST_STREAM_FLOW_CONTROL_ERROR = 7"

record SynStreamFrame =
  Version :: uint16
  Flags :: byte
  StreamID :: uint32
  AssocStreamID :: uint32
  Priority :: byte
  Slot :: byte
  Headers :: Header

record CredentialFrame =
  Version :: uint16
  Slot :: uint16
  Proof :: "byte list"
  Certificates :: "byte list list"

record HeadersFrame =
  Version :: uint16
  Flags :: byte
  StreamID :: uint32
  Headers :: Header

record SynReplyFrame =
  Version :: uint16
  Flags :: byte
  StreamID :: uint32
  Headers :: Header

text \<open>The implementations of the interface \<^verbatim>\<open>Frame\<close>.\<close>

datatype Frame =
    FSynStream SynStreamFrame
  | FSynReply SynReplyFrame
  | FRstStream RstStreamFrame
  | FSettings SettingsFrame
  | FPing PingFrame
  | FGoaway GoawayFrame
  | FHeaders HeadersFrame
  | FWindowUpdate WindowUpdateFrame
  | FCredential CredentialFrame
  | FData DataFrame

text \<open>What \<^verbatim>\<open>%T\<close> prints for a frame.\<close>

fun typeName :: "Frame \<Rightarrow> string" where
  "typeName (FSynStream _) = ''*spdy.SynStreamFrame''"
| "typeName (FSynReply _) = ''*spdy.SynReplyFrame''"
| "typeName (FRstStream _) = ''*spdy.RstStreamFrame''"
| "typeName (FSettings _) = ''*spdy.SettingsFrame''"
| "typeName (FPing _) = ''*spdy.PingFrame''"
| "typeName (FGoaway _) = ''*spdy.GoawayFrame''"
| "typeName (FHeaders _) = ''*spdy.HeadersFrame''"
| "typeName (FWindowUpdate _) = ''*spdy.WindowUpdateFrame''"
| "typeName (FCredential _) = ''*spdy.CredentialFrame''"
| "typeName (FData _) = ''*spdy.DataFrame''"

subsection \<open>Integers of the stream\<close>

text \<open>\<^verbatim>\<open>transferWindow\<close> is an \<^verbatim>\<open>int64\<close>: an integer, with the wrap-around of
  its additions and subtractions written out.\<close>

definition wrap64 :: "int \<Rightarrow> int" where
  "wrap64 x = (x + 2 ^ 63) mod 2 ^ 64 - 2 ^ 63"

text \<open>\<^verbatim>\<open>fmt.Sprint\<close> of an \<^verbatim>\<open>int\<close>: its decimal digits.\<close>

function decimal :: "nat \<Rightarrow> string" where
  "decimal n =
     (if n < 10 then [char_of (48 + n)]
      else decimal (n div 10) @ [char_of (48 + n mod 10)])"
  by pat_completeness auto
termination
  by (relation "measure id") auto

declare decimal.simps [simp del]

definition Sprint :: "int \<Rightarrow> string" where
  "Sprint i = (if i < 0 then CHR ''-'' # decimal (nat (- i)) else decimal (nat i))"

subsection \<open>The queue of pending data\<close>

text \<open>
  \<^verbatim>\<open>queue\<close> has the one field \<^verbatim>\<open>data []byte\<close>, so a queue is its bytes, and the
  nil slice is the empty list. \<^verbatim>\<open>Push\<close> stores the argument itself when
  \<^verbatim>\<open>q.data\<close> is nil and appends otherwise. \<^verbatim>\<open>Pop(n)\<close> slices \<^verbatim>\<open>q.data[:n]\<close>
  when \<^verbatim>\<open>n < len(q.data)\<close>, which panics for a negative \<open>n\<close>.
\<close>

type_synonym queue = "byte list"

definition queue_Push :: "byte list \<Rightarrow> queue \<Rightarrow> queue" where
  "queue_Push bs q = (if q = [] then bs else q @ bs)"

definition queue_Pop :: "int \<Rightarrow> queue \<Rightarrow> (byte list \<times> queue) outcome" where
  "queue_Pop n q =
     (if n < int (length q) then
        (if n < 0 then Panics SliceBoundsOutOfRange
         else Returns (take (nat n) q, drop (nat n) q))
      else Returns (q, []))"

definition queue_Empty :: "queue \<Rightarrow> bool" where
  "queue_Empty q = (length q = 0)"

subsection \<open>The stream\<close>

text \<open>
  The fields of \<^verbatim>\<open>stream\<close> that its methods read or write.
  \<^item> \<^verbatim>\<open>requestBody\<close> and \<^verbatim>\<open>queuedData\<close> are pointers: \<open>None\<close> is nil, and a method
    that dereferences nil panics. \<^verbatim>\<open>s.request.Body\<close> is a reader over the buffer of
    \<^verbatim>\<open>requestBody\<close> itself, so it is no field of its own.
  \<^item> \<open>inputs\<close> holds the frames that wait in the channel \<^verbatim>\<open>input\<close>, oldest first.
  \<^item> \<open>outputs\<close> holds the frames sent on the channel \<^verbatim>\<open>output\<close>, oldest first: a send
    \<^verbatim>\<open>s.output <- f\<close> appends \<open>f\<close>. A frame carries the header mapping as it is when
    the frame is sent.
  \<^item> \<^verbatim>\<open>doneCalls\<close> counts the calls of \<^verbatim>\<open>s.conn.done.Done()\<close>.
\<close>

record stream =
  streamID :: uint32
  requestBody :: "byte list option"
  inputs :: "Frame list"
  outputs :: "Frame list"
  headers :: Header
  responseSent :: bool
  responseCode :: int
  stop :: bool
  transferWindow :: int
  queuedData :: "queue option"
  wroteHeader :: bool
  version :: int
  doneCalls :: nat

definition send :: "Frame \<Rightarrow> stream \<Rightarrow> stream" where
  "send f s = s\<lparr>outputs := outputs s @ [f]\<rparr>"

definition WriteHeader :: "int \<Rightarrow> stream \<Rightarrow> stream" where
  "WriteHeader code s =
     (if wroteHeader s then s
      else
        let s1 = s\<lparr>wroteHeader := True, responseCode := code\<rparr>;
            s2 = s1\<lparr>headers := Header_Set '':status'' (Sprint code) (headers s1)\<rparr>;
            s3 = s2\<lparr>headers := Header_Set '':version'' ''HTTP/1.1'' (headers s2)\<rparr>
        in send (FSynReply \<lparr>SynReplyFrame.Version = word_of_int (version s3), Flags = 0,
                   StreamID = streamID s3, Headers = headers s3\<rparr>) s3)"

text \<open>\<^verbatim>\<open>s.queuedData.Push(data[s.transferWindow:])\<close>: the argument is sliced first,
  then \<^verbatim>\<open>Push\<close> dereferences the queue. \<^verbatim>\<open>data[:s.transferWindow]\<close> follows.\<close>

definition sliceFrom :: "byte list \<Rightarrow> int \<Rightarrow> byte list outcome" where
  "sliceFrom bs lo =
     (if 0 \<le> lo \<and> lo \<le> int (length bs) then Returns (drop (nat lo) bs)
      else Panics SliceBoundsOutOfRange)"

definition sliceTo :: "byte list \<Rightarrow> int \<Rightarrow> byte list outcome" where
  "sliceTo bs hi =
     (if 0 \<le> hi \<and> hi \<le> int (length bs) then Returns (take (nat hi) bs)
      else Panics SliceBoundsOutOfRange)"

definition pushQueued :: "byte list \<Rightarrow> stream \<Rightarrow> stream outcome" where
  "pushQueued bs s =
     (case queuedData s of
        None \<Rightarrow> Panics NilPointerDereference
      | Some q \<Rightarrow> Returns (s\<lparr>queuedData := Some (queue_Push bs q)\<rparr>))"

definition popQueued :: "int \<Rightarrow> stream \<Rightarrow> (byte list \<times> stream) outcome" where
  "popQueued n s =
     (case queuedData s of
        None \<Rightarrow> Panics NilPointerDereference
      | Some q \<Rightarrow>
          andThen (queue_Pop n q) (\<lambda>(out, q'). Returns (out, s\<lparr>queuedData := Some q'\<rparr>)))"

text \<open>\<^verbatim>\<open>Write\<close> returns the pair \<^verbatim>\<open>(int, error)\<close>, a nil error being \<open>None\<close>, and
  the stream as it leaves it.\<close>

definition Write :: "byte list \<Rightarrow> stream \<Rightarrow> ((int \<times> error option) \<times> stream) outcome" where
  "Write bs s =
     (if stop s then Returns ((0, Some ErrCancelled), s)
      else
        let s1 = (if \<not> wroteHeader s then WriteHeader 200 s else s) in
        if length bs = 0 then Returns ((0, None), s1)
        else
          andThen
            (if int (length bs) > transferWindow s1 then
               andThen (sliceFrom bs (transferWindow s1)) (\<lambda>rest.
               andThen (pushQueued rest s1) (\<lambda>s2.
               andThen (sliceTo bs (transferWindow s2)) (\<lambda>front.
               Returns (front, s2))))
             else Returns (bs, s1))
            (\<lambda>(bs', s2).
               let dataFrame = \<lparr>DataFrame.StreamID = streamID s2, Flags = 0, Data = bs'\<rparr>;
                   s3 = s2\<lparr>transferWindow := wrap64 (transferWindow s2 - int (length bs'))\<rparr>;
                   s4 = send (FData dataFrame) s3
               in Returns ((int (length bs'), None), s4)))"

fun receiveFrame :: "Frame \<Rightarrow> stream \<Rightarrow> stream outcome" where
  "receiveFrame (FData frame) s =
     (case requestBody s of
        None \<Rightarrow> Panics NilPointerDereference
      | Some body \<Rightarrow> Returns (s\<lparr>requestBody := Some (body @ Data frame)\<rparr>))"
| "receiveFrame (FHeaders frame) s =
     Returns (s\<lparr>headers := Header_Update (HeadersFrame.Headers frame) (headers s)\<rparr>)"
| "receiveFrame (FWindowUpdate frame) s =
     (if wrap64 (uint (DeltaWindowSize frame) + transferWindow s) > 0x80000000 then
        Returns (send (FRstStream \<lparr>RstStreamFrame.Version = word_of_int (version s), Flags = 0,
                         StreamID = streamID s,
                         StatusCode = RST_STREAM_FLOW_CONTROL_ERROR\<rparr>) s)
      else
        let s1 = s\<lparr>transferWindow := wrap64 (transferWindow s + uint (DeltaWindowSize frame))\<rparr>
        in
          andThen (popQueued (transferWindow s1) s1) (\<lambda>(bs, s2).
          if length bs > 0 then
            andThen (Write bs s2) (\<lambda>((n, err), s3).
            case err of Some e \<Rightarrow> Panics (PanicError e) | None \<Rightarrow> Returns s3)
          else Returns s2))"
| "receiveFrame frame s =
     Panics (PanicMessage (''Received unknown frame of type '' @ typeName frame @ ''.''))"

text \<open>\<^verbatim>\<open>processInput\<close> receives from the input channel until it is empty.\<close>

fun receiveAll :: "Frame list \<Rightarrow> stream \<Rightarrow> stream outcome" where
  "receiveAll [] s = Returns s"
| "receiveAll (frame # frames) s = andThen (receiveFrame frame s) (receiveAll frames)"

definition processInput :: "stream \<Rightarrow> stream outcome" where
  "processInput s = receiveAll (inputs s) (s\<lparr>inputs := []\<rparr>)"

text \<open>
  \<^verbatim>\<open>run\<close>. The handler is the application's: \<^verbatim>\<open>ServeSPDY\<close> gets the stream and
  acts on it through the stream's methods, so it is a parameter that takes the
  stream to the stream it leaves, or panics.
\<close>

definition run :: "(stream \<Rightarrow> stream outcome) \<Rightarrow> stream \<Rightarrow> stream outcome" where
  "run handler s =
     (let s1 = s\<lparr>requestBody := Some []\<rparr> in
      andThen (processInput s1) (\<lambda>s2.
      let s3 = s2\<lparr>transferWindow := 65536, queuedData := Some []\<rparr> in
      andThen (handler s3) (\<lambda>s4.
      let s5 =
        (if \<not> wroteHeader s4 then
           let s4a = s4\<lparr>headers := Header_Set '':status'' ''200'' (headers s4)\<rparr>;
               s4b = s4a\<lparr>headers := Header_Set '':version'' ''HTTP/1.1'' (headers s4a)\<rparr>
           in send (FSynReply \<lparr>SynReplyFrame.Version = word_of_int (version s4b),
                      Flags = FLAG_FIN, StreamID = streamID s4b,
                      Headers = headers s4b\<rparr>) s4b
         else
           send (FRstStream \<lparr>RstStreamFrame.Version = word_of_int (version s4), Flags = 0,
                   StreamID = streamID s4, StatusCode = RST_STREAM_CANCEL\<rparr>) s4)
      in Returns (s5\<lparr>doneCalls := Suc (doneCalls s5)\<rparr>))))"

section \<open>Connection constructors\<close>

text \<open>
  Two constructors build a connection: \<^verbatim>\<open>NewConn\<close> of package \<^verbatim>\<open>spdy3\<close>, for
  servers and clients, and \<^verbatim>\<open>NewClientConn\<close> of package \<^verbatim>\<open>spdy\<close>. A pointer
  or interface argument is an option, \<open>None\<close> being nil. The records hold the
  fields that the constructors set from their arguments and from literals;
  the window sizes and stream limits come from constants declared outside
  src/ and are left out, as are the channels, maps, locks and compressors.
\<close>

record net_Conn =
  RemoteAddr :: string

record http_Server =
  ReadTimeout :: int
  WriteTimeout :: int

record Conn =
  Subversion :: int
  remoteAddr :: string
  server :: "http_Server option"
  nextPingID :: uint32
  oddity :: uint32
  lastPushStreamID :: uint32
  lastRequestStreamID :: uint32
  vectorIndex :: uint16
  readTimeout :: int
  writeTimeout :: int
  goawayReceived :: bool
  goawaySent :: bool

text \<open>\<^verbatim>\<open>new(Conn)\<close>: every field has its zero value.\<close>

definition new_Conn :: Conn where
  "new_Conn = \<lparr>Subversion = 0, remoteAddr = [], server = None, nextPingID = 0, oddity = 0,
     lastPushStreamID = 0, lastRequestStreamID = 0, vectorIndex = 0, readTimeout = 0,
     writeTimeout = 0, goawayReceived = False, goawaySent = False\<rparr>"

definition NewConn :: "net_Conn option \<Rightarrow> http_Server option \<Rightarrow> int \<Rightarrow> Conn outcome" where
  "NewConn conn srv subversion =
     (case conn of
        None \<Rightarrow> Panics NilPointerDereference
      | Some c \<Rightarrow>
          let out = new_Conn\<lparr>remoteAddr := RemoteAddr c, server := srv,
                      lastPushStreamID := 0, lastRequestStreamID := 0,
                      Subversion := subversion\<rparr>
          in
            (case srv of
               Some sv \<Rightarrow>
                 let out1 = out\<lparr>nextPingID := 2, oddity := 0, vectorIndex := 8\<rparr>;
                     out2 = (if ReadTimeout sv \<noteq> 0 then out1\<lparr>readTimeout := ReadTimeout sv\<rparr>
                             else out1);
                     out3 = (if WriteTimeout sv \<noteq> 0 then out2\<lparr>writeTimeout := WriteTimeout sv\<rparr>
                             else out2)
                 in Returns out3
             | None \<Rightarrow> Returns (out\<lparr>nextPingID := 1, oddity := 1\<rparr>)))"

record 'client connV3 =
  remoteAddr :: string
  client :: "'client option"
  nextPingID :: uint32
  lastPushStreamID :: uint32
  lastRequestStreamID :: uint32
  oddity :: uint32

definition NewClientConn ::
    "net_Conn option \<Rightarrow> 'client option \<Rightarrow> uint16 \<Rightarrow> error + 'client connV3" where
  "NewClientConn conn cl ver =
     (case conn of
        None \<Rightarrow> Inl (ErrorNew ''Error: Connection initialised with nil net.conn.'')
      | Some c \<Rightarrow>
          (case cl of
             None \<Rightarrow> Inl (ErrorNew ''Error: Connection initialised with nil client.'')
           | Some _ \<Rightarrow>
               if ver = 3 then
                 Inr \<lparr>connV3.remoteAddr = RemoteAddr c, client = cl, nextPingID = 2,
                      lastPushStreamID = 0, lastRequestStreamID = 0, oddity = 1\<rparr>
               else Inl (ErrorNew ''Error: Unrecognised SPDY version.'')))"

section \<open>Stream states and examples\<close>

text \<open>The states in which the handler and the frame loop find a running stream:
  the queue is allocated and the window lies between 0 and the bound that
  \<^verbatim>\<open>receiveFrame\<close> enforces.\<close>

definition ready :: "stream \<Rightarrow> bool" where
  "ready s = (0 \<le> transferWindow s \<and> transferWindow s \<le> 0x80000000 \<and> queuedData s \<noteq> None)"

subsection \<open>Example streams and handlers\<close>

text \<open>A stream as \<^verbatim>\<open>run\<close> hands it to the handler: the body buffer and the queue
  allocated and empty, the window at 65536, no header written.\<close>

definition primedStream :: stream where
  "primedStream =
     \<lparr>streamID = 1, requestBody = Some [], inputs = [], outputs = [], headers = [],
      responseSent = False, responseCode = 0, stop = False, transferWindow = 65536,
      queuedData = Some [], wroteHeader = False, version = 3, doneCalls = 0\<rparr>"

text \<open>A handler that writes the header with status 200 and returns, and one that
  returns without touching the stream.\<close>

definition headerHandler :: "stream \<Rightarrow> stream outcome" where
  "headerHandler s = Returns (WriteHeader 200 s)"

definition idleHandler :: "stream \<Rightarrow> stream outcome" where
  "idleHandler s = Returns s"

section \<open>Properties of the codec\<close>

lemmas reader_defs =
  andThen_def index_def slice_def store_def make_bytes_def wrongType_def readVersion_def
  intField_def bytesToUint16_def bytesToUint24_def bytesToUint32_def bytesToUint31_def

lemma control_bit_mask_not_one: "(b :: byte) AND 0x80 \<noteq> 1"
proof
  assume "b AND 0x80 = 1"
  then have "bit (b AND 0x80) 0 = bit (1 :: byte) 0"
    by simp
  then show False
    by (simp add: bit_and_iff)
qed

text \<open>
  C1. Claimed: for every frame variant, parsing the bytes that encoding produces
  succeeds and gives the frame's fields back. For WINDOW\_UPDATE the encoder
  \<^verbatim>\<open>WindowUpdateFrame.Bytes\<close> produces no bytes at all: it makes a slice of 12
  bytes and assigns to index 12, so it panics for every frame, and the
  composition of encoding and parsing never returns the frame.
\<close>

theorem WindowUpdateFrame_Bytes_panics:
  "WindowUpdateFrame_Bytes frame = Panics IndexOutOfRange
   \<and> andThen (WindowUpdateFrame_Bytes frame) WindowUpdateFrame_Parse \<noteq> Returns (Inr frame)"
  by (simp add: WindowUpdateFrame_Bytes_def andThen_def store_def make_bytes_def)

text \<open>
  C3. Claimed: \<^verbatim>\<open>RstStreamFrame.Parse\<close> accepts a well-formed RST\_STREAM frame
  of 16 bytes. It returns the length error for the 16 bytes of such a frame
  (control bit set, type 3, declared length 8, stream id 1, status 5), because it
  accepts a total length of 8 only; and since it then reads \<^verbatim>\<open>data[8]\<close>, it
  succeeds on no input at all.
\<close>

theorem RstStreamFrame_Parse_never_succeeds:
  "RstStreamFrame_Parse [0x80, 3, 0, 3, 0, 0, 0, 8, 0, 0, 0, 1, 0, 0, 0, 5]
     = Returns (Inl (IncorrectDataLength 16 8))
   \<and> RstStreamFrame_Parse d \<noteq> Returns (Inr frame)"
proof
  show "RstStreamFrame_Parse [0x80, 3, 0, 3, 0, 0, 0, 8, 0, 0, 0, 1, 0, 0, 0, 5]
          = Returns (Inl (IncorrectDataLength 16 8))"
    by (simp add: RstStreamFrame_Parse_def)
next
  show "RstStreamFrame_Parse d \<noteq> Returns (Inr frame)"
  proof (cases "length d = 8")
    case True
    then have "index d 8 = Panics IndexOutOfRange"
      by (simp add: index_def)
    then show ?thesis
      using True
      by (auto simp add: RstStreamFrame_Parse_def Let_def andThen_def split: outcome.splits)
  next
    case False
    then show ?thesis
      by (simp add: RstStreamFrame_Parse_def Let_def)
  qed
qed

text \<open>
  C6. Claimed: an input shorter than the fixed header of a frame type gets a
  length error from \<^verbatim>\<open>Parse\<close>, with no read at or beyond its end.
  \<^verbatim>\<open>SettingsFrame.Parse\<close> slices \<^verbatim>\<open>data[8:12]\<close> before its length check and
  panics on the empty input and on a bare 8-byte header;
  \<^verbatim>\<open>WindowUpdateFrame.Parse\<close> lets 12 bytes pass its length check and panics
  at \<^verbatim>\<open>data[12]\<close>.
\<close>

theorem short_input_panics:
  "SettingsFrame_Parse [] = Panics SliceBoundsOutOfRange
   \<and> SettingsFrame_Parse [0x80, 3, 0, 4, 0, 0, 0, 0] = Panics SliceBoundsOutOfRange
   \<and> WindowUpdateFrame_Parse [0x80, 3, 0, 9, 0, 0, 0, 8, 0, 0, 0, 1] = Panics IndexOutOfRange"
  by (simp add: SettingsFrame_Parse_def WindowUpdateFrame_Parse_def reader_defs)

text \<open>
  C7. Claimed: \<^verbatim>\<open>DataFrame.Parse\<close> rejects an input whose first byte has the
  control bit set, with an invalid-field error for the control bit. The check
  compares \<^verbatim>\<open>data[0]&0x80\<close> with 1, which it never equals: eight bytes that
  start with \<open>0x80\<close> are decoded as a DATA frame, and the control-bit error is
  returned for no input.
\<close>

theorem DataFrame_Parse_accepts_control_bit:
  "DataFrame_Parse [0x80, 0, 0, 0, 0, 0, 0, 0]
     = Returns (Inr \<lparr>DataFrame.StreamID = 0, Flags = 0, Data = []\<rparr>)
   \<and> DataFrame_Parse d \<noteq> Returns (Inl (InvalidField ''Control bit'' 1 0))"
proof
  show "DataFrame_Parse [0x80, 0, 0, 0, 0, 0, 0, 0]
          = Returns (Inr \<lparr>DataFrame.StreamID = 0, Flags = 0, Data = []\<rparr>)"
    by (simp add: DataFrame_Parse_def reader_defs)
next
  show "DataFrame_Parse d \<noteq> Returns (Inl (InvalidField ''Control bit'' 1 0))"
    by (auto simp add: DataFrame_Parse_def Let_def reader_defs control_bit_mask_not_one
        split: outcome.splits if_splits)
qed

text \<open>The same slips in the neighbouring encoders: \<^verbatim>\<open>RstStreamFrame.Bytes\<close> makes 8
  bytes and assigns 16, and the DATA encoder writes the payload length where
  \<^verbatim>\<open>DataFrame.Parse\<close> does not read it, so a DATA frame on stream 1 does not come
  back either.\<close>

lemma RstStreamFrame_Bytes_panics: "RstStreamFrame_Bytes frame = Panics IndexOutOfRange"
  by (simp add: RstStreamFrame_Bytes_def andThen_def store_def make_bytes_def)

lemma DataFrame_roundtrip_fails:
  "andThen (DataFrame_Bytes \<lparr>DataFrame.StreamID = 1, Flags = 0, Data = []\<rparr>) DataFrame_Parse
     = Returns (Inl (IncorrectDataLength 8 9))"
  by (simp add: DataFrame_Bytes_def DataFrame_Parse_def reader_defs eval_nat_numeral)

subsection \<open>The frames whose encoder and parser agree\<close>

lemma mask_7: "(0x7f :: byte) = mask 7"
  by (simp add: mask_eq_exp_minus_1)

lemma mask_15: "(0x7fff :: uint16) = mask 15"
  by (simp add: mask_eq_exp_minus_1)

lemma mask_31: "(0x7fffffff :: uint32) = mask 31"
  by (simp add: mask_eq_exp_minus_1)

lemma control_bit_set: "((0x80 OR x) AND 0x80 :: byte) \<noteq> 0"
proof
  assume "(0x80 OR x) AND 0x80 = 0"
  then have "bit ((0x80 OR x) AND 0x80 :: byte) 7 = bit (0 :: byte) 7"
    by simp
  then show False
    by (simp add: bit_simps)
qed

lemma strip_control: "((0x80 OR y) AND 0x7f :: byte) = y AND 0x7f"
  by (simp add: bit.conj_disj_distrib2)

lemma top_bit_clear: "drop_bit 7 ((y :: byte) AND 0x7f) = 0"
  unfolding mask_7 by (rule bit_word_eqI) (simp add: bit_simps)

lemma four_bytes_or:
  fixes b0 b1 b2 b3 :: byte
  shows "(push_bit 24 (ucast b0) + push_bit 16 (ucast b1) + push_bit 8 (ucast b2) + ucast b3
            :: uint32)
       = ((push_bit 24 (ucast b0) OR push_bit 16 (ucast b1)) OR push_bit 8 (ucast b2))
            OR ucast b3"
proof -
  have 1: "(push_bit 24 (ucast b0) + push_bit 16 (ucast b1) :: uint32)
      = push_bit 24 (ucast b0) OR push_bit 16 (ucast b1)"
    by (rule disjunctive_add) (auto simp add: bit_simps dest: bit_imp_le_length)
  have 2: "((push_bit 24 (ucast b0) OR push_bit 16 (ucast b1)) + push_bit 8 (ucast b2) :: uint32)
      = (push_bit 24 (ucast b0) OR push_bit 16 (ucast b1)) OR push_bit 8 (ucast b2)"
    by (rule disjunctive_add) (auto simp add: bit_simps dest: bit_imp_le_length)
  have 3: "(((push_bit 24 (ucast b0) OR push_bit 16 (ucast b1)) OR push_bit 8 (ucast b2))
              + ucast b3 :: uint32)
      = ((push_bit 24 (ucast b0) OR push_bit 16 (ucast b1)) OR push_bit 8 (ucast b2))
          OR ucast b3"
    by (rule disjunctive_add) (auto simp add: bit_simps dest: bit_imp_le_length)
  show ?thesis
    by (simp only: 1 2 3)
qed

lemma uint32_of_its_bytes:
  "push_bit 24 (ucast (ucast (drop_bit 24 x) :: byte))
     + push_bit 16 (ucast (ucast (drop_bit 16 x) :: byte))
     + push_bit 8 (ucast (ucast (drop_bit 8 x) :: byte)) + ucast (ucast x :: byte)
   = (x :: uint32)"
  unfolding four_bytes_or
proof (rule bit_word_eqI)
  fix n
  assume "n < LENGTH(32)"
  then consider "n < 8" | "8 \<le> n" "n < 16" | "16 \<le> n" "n < 24" | "24 \<le> n" "n < 32"
    by fastforce
  then show "bit (((push_bit 24 (ucast (ucast (drop_bit 24 x) :: byte))
        OR push_bit 16 (ucast (ucast (drop_bit 16 x) :: byte)))
        OR push_bit 8 (ucast (ucast (drop_bit 8 x) :: byte)))
        OR ucast (ucast x :: byte) :: uint32) n = bit x n"
    by cases (auto simp add: bit_simps)
qed

lemma uint31_of_its_bytes:
  "push_bit 24 (ucast (ucast (drop_bit 24 x) AND 0x7f :: byte))
     + push_bit 16 (ucast (ucast (drop_bit 16 x) :: byte))
     + push_bit 8 (ucast (ucast (drop_bit 8 x) :: byte)) + ucast (ucast x :: byte)
   = (x :: uint32) AND 0x7fffffff"
  unfolding four_bytes_or mask_7 mask_31
proof (rule bit_word_eqI)
  fix n
  assume "n < LENGTH(32)"
  then consider "n < 8" | "8 \<le> n" "n < 16" | "16 \<le> n" "n < 24" | "24 \<le> n" "n < 32"
    by fastforce
  then show "bit (((push_bit 24 (ucast (ucast (drop_bit 24 x) AND mask 7 :: byte))
        OR push_bit 16 (ucast (ucast (drop_bit 16 x) :: byte)))
        OR push_bit 8 (ucast (ucast (drop_bit 8 x) :: byte)))
        OR ucast (ucast x :: byte) :: uint32) n = bit (x AND mask 31) n"
    by cases (auto simp add: bit_simps)
qed

lemma version_of_its_bytes:
  "push_bit 8 (ucast ((0x80 OR ucast (drop_bit 8 v) :: byte) AND 0x7f)) + ucast (ucast v :: byte)
   = (v :: uint16) AND 0x7fff"
proof -
  have 1: "(push_bit 8 (ucast (ucast (drop_bit 8 v) AND mask 7 :: byte)) + ucast (ucast v :: byte)
              :: uint16)
      = push_bit 8 (ucast (ucast (drop_bit 8 v) AND mask 7 :: byte)) OR ucast (ucast v :: byte)"
    by (rule disjunctive_add) (auto simp add: bit_simps dest: bit_imp_le_length)
  have "(push_bit 8 (ucast (ucast (drop_bit 8 v) AND mask 7 :: byte)) OR ucast (ucast v :: byte)
           :: uint16) = v AND mask 15"
  proof (rule bit_word_eqI)
    fix n
    assume "n < LENGTH(16)"
    then consider "n < 8" | "8 \<le> n" "n < 16"
      by fastforce
    then show "bit (push_bit 8 (ucast (ucast (drop_bit 8 v) AND mask 7 :: byte))
          OR ucast (ucast v :: byte) :: uint16) n = bit (v AND mask 15) n"
      by cases (auto simp add: bit_simps)
  qed
  then show ?thesis
    unfolding strip_control unfolding mask_7 mask_15 1 .
qed

lemma make_bytes_12: "make_bytes 12 = [0, 0, 0, 0, 0, 0, 0, 0, 0, 0, 0, 0]"
  by (simp add: make_bytes_def eval_nat_numeral)

lemma make_bytes_16: "make_bytes 16 = [0, 0, 0, 0, 0, 0, 0, 0, 0, 0, 0, 0, 0, 0, 0, 0]"
  by (simp add: make_bytes_def eval_nat_numeral)

text \<open>PING and GOAWAY round-trip: parsing the encoding gives the frame back, its
  version cut to 15 bits and its stream id to 31 bits, which is the frame itself
  when those fields are in range.\<close>

lemma PingFrame_roundtrip:
  "andThen (PingFrame_Bytes frame) PingFrame_Parse
     = Returns (Inr (frame\<lparr>PingFrame.Version := PingFrame.Version frame AND 0x7fff\<rparr>))"
  by (simp add: PingFrame_Bytes_def PingFrame_Parse_def make_bytes_12 andThen_def store_def
      index_def slice_def wrongType_def readVersion_def bytesToUint24_def bytesToUint32_def
      control_bit_set version_of_its_bytes uint32_of_its_bytes)

lemma GoawayFrame_roundtrip:
  "andThen (GoawayFrame_Bytes frame) GoawayFrame_Parse
     = Returns (Inr (frame\<lparr>GoawayFrame.Version := GoawayFrame.Version frame AND 0x7fff,
                          LastGoodStreamID := LastGoodStreamID frame AND 0x7fffffff\<rparr>))"
  by (simp add: GoawayFrame_Bytes_def GoawayFrame_Parse_def make_bytes_16 andThen_def store_def
      index_def slice_def wrongType_def readVersion_def bytesToUint24_def bytesToUint32_def
      bytesToUint31_def control_bit_set top_bit_clear version_of_its_bytes uint32_of_its_bytes
      uint31_of_its_bytes)

section \<open>Properties of the connection constructors\<close>

text \<open>
  C8. Claimed: every constructor gives the next outbound ping id the parity of
  the connection's role, odd for a client. \<^verbatim>\<open>NewClientConn\<close> builds a client
  connection (oddity 1) whose next ping id is 2.
\<close>

theorem NewClientConn_ping_id_even:
  "(case NewClientConn (Some c) (Some cl) 3 of
      Inl e \<Rightarrow> False
    | Inr out \<Rightarrow> connV3.nextPingID out = 2 \<and> connV3.oddity out = 1
        \<and> even (unat (connV3.nextPingID out)))"
  by (simp add: NewClientConn_def)

lemma NewConn_ping_id_parity:
  "NewConn (Some c) srv subversion = Returns out \<Longrightarrow>
     Conn.nextPingID out = (if srv = None then 1 else 2)
     \<and> Conn.oddity out = (if srv = None then 1 else 0)"
  by (auto simp add: NewConn_def Let_def split: option.splits if_splits)

section \<open>Properties of the stream\<close>

lemma wrap64_id: "- (2 ^ 63) \<le> x \<Longrightarrow> x < 2 ^ 63 \<Longrightarrow> wrap64 x = x"
  by (simp add: wrap64_def)

lemma Sprint_200: "Sprint 200 = ''200''"
  by code_simp

lemma WriteHeader_keeps:
  "queuedData (WriteHeader code s) = queuedData s"
  "transferWindow (WriteHeader code s) = transferWindow s"
  "stop (WriteHeader code s) = stop s"
  "streamID (WriteHeader code s) = streamID s"
  by (simp_all add: WriteHeader_def Let_def send_def)


text \<open>
  C9. On a stream whose stop flag is set, \<^verbatim>\<open>Write\<close> returns 0 and the
  cancellation error, and the stream it leaves is the stream it got: no frame is
  sent, the window and the queue are as before.
\<close>

theorem Write_stopped:
  "stop s \<Longrightarrow> Write bs s = Returns ((0, Some ErrCancelled), s)"
  by (simp add: Write_def)

theorem Write_stopped_witness:
  "stop (primedStream\<lparr>stop := True\<rparr>)
   \<and> Write [1, 2, 3] (primedStream\<lparr>stop := True\<rparr>)
       = Returns ((0, Some ErrCancelled), primedStream\<lparr>stop := True\<rparr>)"
  using Write_stopped [of "primedStream\<lparr>stop := True\<rparr>" "[1, 2, 3]"]
  by simp

text \<open>
  C10. A non-empty write on a stream that is not stopped returns the length of
  the part sent at once, the smaller of the input's length and the window, and a
  nil error. The bytes beyond the window go to the queue and are not counted;
  the DATA frame carries the part sent, which is empty when the window is zero.
  The window is not negative, as \<^verbatim>\<open>run\<close> and \<^verbatim>\<open>Write\<close> leave it, and the queue is
  allocated.
\<close>

theorem Write_returns_sent_length:
  assumes "\<not> stop s" and "bs \<noteq> []" and "queuedData s = Some q"
    and "0 \<le> transferWindow s" and "transferWindow s < 2 ^ 63"
  defines "s0 \<equiv> (if wroteHeader s then s else WriteHeader 200 s)"
    and "n \<equiv> min (int (length bs)) (transferWindow s)"
  shows "Write bs s = Returns ((n, None),
           s0\<lparr>queuedData := Some (q @ drop (nat n) bs),
              transferWindow := transferWindow s - n,
              outputs := outputs s0 @
                [FData \<lparr>DataFrame.StreamID = streamID s, Flags = 0, Data = take (nat n) bs\<rparr>]\<rparr>)"
proof (cases "transferWindow s < int (length bs)")
  case True
  then have n: "n = transferWindow s"
    by (simp add: n_def)
  show ?thesis
    using assms(1-4) True unfolding n s0_def
    by (auto simp add: Write_def Let_def WriteHeader_keeps andThen_def sliceFrom_def
        sliceTo_def pushQueued_def queue_Push_def send_def wrap64_def)
next
  case False
  then have n: "n = int (length bs)"
    by (simp add: n_def)
  have w: "wrap64 (transferWindow s - int (length bs)) = transferWindow s - int (length bs)"
    using False assms(5) by (intro wrap64_id) auto
  have q: "t\<lparr>queuedData := Some q\<rparr> = t" if "queuedData t = Some q" for t :: stream
    using that by (cases t) simp
  show ?thesis
    using assms(1-3) False unfolding n s0_def
    by (auto simp add: Write_def Let_def WriteHeader_keeps andThen_def send_def w q)
qed

theorem Write_returns_sent_length_witness:
  "Write [1, 2, 3] (primedStream\<lparr>transferWindow := 0, wroteHeader := True\<rparr>)
     = Returns ((0, None),
         primedStream\<lparr>transferWindow := 0, wroteHeader := True,
           queuedData := Some [1, 2, 3],
           outputs := [FData \<lparr>DataFrame.StreamID = 1, Flags = 0, Data = []\<rparr>]\<rparr>)
   \<and> Write [1, 2, 3] (primedStream\<lparr>transferWindow := 2, wroteHeader := True\<rparr>)
     = Returns ((2, None),
         primedStream\<lparr>transferWindow := 0, wroteHeader := True,
           queuedData := Some [3],
           outputs := [FData \<lparr>DataFrame.StreamID = 1, Flags = 0, Data = [1, 2]\<rparr>]\<rparr>)"
  using Write_returns_sent_length
      [of "primedStream\<lparr>transferWindow := 0, wroteHeader := True\<rparr>" "[1, 2, 3]" "[]"]
    Write_returns_sent_length
      [of "primedStream\<lparr>transferWindow := 2, wroteHeader := True\<rparr>" "[1, 2, 3]" "[]"]
  by (simp add: primedStream_def)

lemma receiveFrame_overflow_resets:
  assumes "0x80000000 < uint (DeltaWindowSize frame) + transferWindow s"
    and "transferWindow s < 2 ^ 62"
  shows "receiveFrame (FWindowUpdate frame) s =
           Returns (send (FRstStream \<lparr>RstStreamFrame.Version = word_of_int (version s),
                            Flags = 0, StreamID = streamID s,
                            StatusCode = RST_STREAM_FLOW_CONTROL_ERROR\<rparr>) s)"
proof -
  have "uint (DeltaWindowSize frame) < 2 ^ 32"
    using uint_bounded [of "DeltaWindowSize frame"] by simp
  with assms have "wrap64 (uint (DeltaWindowSize frame) + transferWindow s)
      = uint (DeltaWindowSize frame) + transferWindow s"
    by (intro wrap64_id) auto
  with assms(1) show ?thesis
    by simp
qed


text \<open>
  C2. Claimed: a WINDOW\_UPDATE whose delta added to the outbound window would
  exceed \<open>2^31 - 1\<close> gets an RST\_STREAM with the flow-control status and does not
  grow the window. \<^verbatim>\<open>receiveFrame\<close> compares the sum with \<open>0x80000000\<close>, so a sum
  of exactly \<open>2^31\<close> passes: no frame is sent and the window becomes \<open>2^31\<close>.
\<close>

theorem receiveFrame_window_reaches_2_31:
  assumes "uint (DeltaWindowSize frame) + transferWindow s = 0x80000000"
    and "queuedData s = Some []"
  shows "receiveFrame (FWindowUpdate frame) s = Returns (s\<lparr>transferWindow := 0x80000000\<rparr>)"
proof -
  have sum: "wrap64 (uint (DeltaWindowSize frame) + transferWindow s) = 0x80000000"
    using assms(1) by (simp add: wrap64_def)
  have sum': "wrap64 (transferWindow s + uint (DeltaWindowSize frame)) = 0x80000000"
    using sum by (simp add: add.commute)
  have same: "t\<lparr>queuedData := Some []\<rparr> = t" if "queuedData t = Some []" for t :: stream
    using that by (cases t) simp
  show ?thesis
    using assms(2)
    by (simp add: sum sum' popQueued_def queue_Pop_def andThen_def same)
qed

theorem receiveFrame_window_reaches_2_31_witness:
  "uint (DeltaWindowSize \<lparr>WindowUpdateFrame.Version = 3, StreamID = 1,
                            DeltaWindowSize = 0x7FFF0000\<rparr>)
     + transferWindow primedStream = 0x80000000
   \<and> queuedData primedStream = Some []
   \<and> receiveFrame (FWindowUpdate \<lparr>WindowUpdateFrame.Version = 3, StreamID = 1,
                                    DeltaWindowSize = 0x7FFF0000\<rparr>) primedStream
       = Returns (primedStream\<lparr>transferWindow := 0x80000000\<rparr>)"
proof -
  have h1: "uint (DeltaWindowSize \<lparr>WindowUpdateFrame.Version = 3, StreamID = 1,
                                   DeltaWindowSize = 0x7FFF0000\<rparr>)
              + transferWindow primedStream = 0x80000000"
    by (simp add: primedStream_def)
  have h2: "queuedData primedStream = Some []"
    by (simp add: primedStream_def)
  show ?thesis
    using h1 h2 receiveFrame_window_reaches_2_31 [OF h1 h2] by simp
qed



lemma status_200_set:
  "map_of (Header_Set '':version'' ''HTTP/1.1'' (Header_Set '':status'' ''200'' h)) '':status''
     = Some ''200''"
  by (simp add: Header_Set_def update_conv')

text \<open>
  C5. Claimed: after the handler returns, \<^verbatim>\<open>run\<close> sends an RST\_STREAM with the
  cancellation status only when the headers were written and the handler was
  cancelled; a stream whose headers were written and whose handler completed
  normally is not reset. \<^verbatim>\<open>run\<close> does not look at how the handler ended. As
  amended: when the handler has returned, \<^verbatim>\<open>run\<close> sends one more frame and
  signals completion once; the frame is a SYN\_REPLY with the FIN flag and
  status 200 if \<^verbatim>\<open>WriteHeader\<close> was never called, and an RST\_STREAM with the
  cancellation status whenever the header was written.
\<close>

theorem run_completion:
  assumes "processInput (s\<lparr>requestBody := Some []\<rparr>) = Returns s2"
    and "handler (s2\<lparr>transferWindow := 65536, queuedData := Some []\<rparr>) = Returns s4"
  shows "\<exists>s'. run handler s = Returns s' \<and> doneCalls s' = Suc (doneCalls s4)
           \<and> stop s' = stop s4
           \<and> (if wroteHeader s4 then
                 outputs s' = outputs s4 @
                   [FRstStream \<lparr>RstStreamFrame.Version = word_of_int (version s4), Flags = 0,
                      StreamID = streamID s4, StatusCode = RST_STREAM_CANCEL\<rparr>]
               else
                 (\<exists>reply. outputs s' = outputs s4 @ [FSynReply reply]
                    \<and> SynReplyFrame.Flags reply = FLAG_FIN
                    \<and> SynReplyFrame.StreamID reply = streamID s4
                    \<and> map_of (SynReplyFrame.Headers reply) '':status'' = Some ''200''))"
  using assms
  by (simp add: run_def Let_def andThen_def send_def status_200_set)

theorem run_completion_witness:
  "\<exists>s'. run idleHandler primedStream = Returns s' \<and> doneCalls s' = 1 \<and> \<not> stop s'
      \<and> outputs s' =
           [FSynReply \<lparr>SynReplyFrame.Version = 3, Flags = FLAG_FIN, StreamID = 1,
              Headers = [('':status'', ''200''), ('':version'', ''HTTP/1.1'')]\<rparr>]"
proof -
  have h1: "processInput (primedStream\<lparr>requestBody := Some []\<rparr>) = Returns primedStream"
    by (simp add: processInput_def primedStream_def)
  have h2: "idleHandler (primedStream\<lparr>transferWindow := 65536, queuedData := Some []\<rparr>)
              = Returns primedStream"
    by (simp add: idleHandler_def primedStream_def)
  from run_completion [of primedStream primedStream idleHandler primedStream, OF h1 h2]
  obtain s' where r: "run idleHandler primedStream = Returns s'"
    and d: "doneCalls s' = Suc (doneCalls primedStream)"
    and st: "stop s' = stop primedStream"
    by blast
  have "run idleHandler primedStream =
      Returns (primedStream\<lparr>headers := [('':status'', ''200''), ('':version'', ''HTTP/1.1'')],
        outputs := [FSynReply \<lparr>SynReplyFrame.Version = 3, Flags = FLAG_FIN, StreamID = 1,
              Headers = [('':status'', ''200''), ('':version'', ''HTTP/1.1'')]\<rparr>],
        doneCalls := 1\<rparr>)"
    by (simp add: run_def processInput_def idleHandler_def Let_def andThen_def send_def
        Header_Set_def primedStream_def)
  with r d st show ?thesis
    by (simp add: primedStream_def)
qed

text \<open>The claim fails for a handler that writes the header and returns: the
  stream is not stopped, and \<^verbatim>\<open>run\<close> resets it.\<close>

theorem run_resets_after_normal_completion:
  "(case run headerHandler primedStream of
      Panics p \<Rightarrow> False
    | Returns s' \<Rightarrow>
        wroteHeader s' \<and> \<not> stop s'
        \<and> outputs s' =
            [FSynReply \<lparr>SynReplyFrame.Version = 3, Flags = 0, StreamID = 1,
               Headers = [('':status'', ''200''), ('':version'', ''HTTP/1.1'')]\<rparr>,
             FRstStream \<lparr>RstStreamFrame.Version = 3, Flags = 0, StreamID = 1,
               StatusCode = RST_STREAM_CANCEL\<rparr>])"
  by (simp add: run_def headerHandler_def processInput_def Let_def andThen_def send_def
      WriteHeader_def Header_Set_def Sprint_200 primedStream_def)

subsection \<open>The window stays in range\<close>

text \<open>\<^verbatim>\<open>run\<close> primes a ready stream, and \<^verbatim>\<open>Write\<close> and a WINDOW\_UPDATE keep a
  stream ready without panicking: the window is never negative and never above
  \<open>2^31\<close>, and the queue stays allocated.\<close>

lemma run_primes_ready: "ready (s\<lparr>transferWindow := 65536, queuedData := Some []\<rparr>)"
  by (simp add: ready_def)

lemma Write_ready:
  assumes "ready s"
  shows "\<exists>r s'. Write bs s = Returns (r, s') \<and> ready s'"
proof -
  from assms obtain q where q: "queuedData s = Some q"
    by (auto simp add: ready_def)
  from assms have w: "0 \<le> transferWindow s" "transferWindow s \<le> 0x80000000"
    by (simp_all add: ready_def)
  show ?thesis
  proof (cases "stop s \<or> bs = []")
    case True
    with assms show ?thesis
      by (auto simp add: Write_def Let_def ready_def WriteHeader_keeps)
  next
    case False
    then have ns: "\<not> stop s" and ne: "bs \<noteq> []"
      by simp_all
    show ?thesis
    proof (cases "transferWindow s < int (length bs)")
      case True
      with ns ne q w show ?thesis
        by (auto simp add: Write_def Let_def WriteHeader_keeps andThen_def sliceFrom_def
            sliceTo_def pushQueued_def send_def wrap64_def ready_def)
    next
      case False
      then have "wrap64 (transferWindow s - int (length bs)) = transferWindow s - int (length bs)"
        using w by (intro wrap64_id) auto
      with False ns ne q w show ?thesis
        by (auto simp add: Write_def Let_def WriteHeader_keeps andThen_def send_def ready_def)
    qed
  qed
qed

lemma receiveFrame_WindowUpdate_ready:
  assumes "ready s" and "\<not> stop s"
  shows "\<exists>s'. receiveFrame (FWindowUpdate frame) s = Returns s' \<and> ready s'"
proof (cases "0x80000000 < uint (DeltaWindowSize frame) + transferWindow s")
  case True
  with assms(1) show ?thesis
    by (simp add: receiveFrame_overflow_resets ready_def send_def del: receiveFrame.simps)
next
  case False
  let ?W = "transferWindow s + uint (DeltaWindowSize frame)"
  from assms(1) obtain q where q: "queuedData s = Some q"
    by (auto simp add: ready_def)
  from assms(1) have w: "0 \<le> transferWindow s"
    by (simp add: ready_def)
  have W: "0 \<le> ?W" "?W \<le> 0x80000000"
    using w False by simp_all
  have grow: "wrap64 ?W = ?W" "wrap64 (uint (DeltaWindowSize frame) + transferWindow s) = ?W"
    using W by (simp_all add: wrap64_def add.commute)
  have pop: "queue_Pop ?W q = Returns (take (nat ?W) q, drop (nat ?W) q)"
    using W(1) by (auto simp add: queue_Pop_def)
  let ?s2 = "s\<lparr>transferWindow := ?W, queuedData := Some (drop (nat ?W) q)\<rparr>"
  have step: "receiveFrame (FWindowUpdate frame) s =
      (if 0 < length (take (nat ?W) q) then
         andThen (Write (take (nat ?W) q) ?s2) (\<lambda>((n, err), s3).
           case err of Some e \<Rightarrow> Panics (PanicError e) | None \<Rightarrow> Returns s3)
       else Returns ?s2)"
    using False q by (simp add: grow popQueued_def pop andThen_def Let_def)
  have r2: "ready ?s2"
    using W by (simp add: ready_def)
  show ?thesis
  proof (cases "0 < length (take (nat ?W) q)")
    case False
    with step have "receiveFrame (FWindowUpdate frame) s = Returns ?s2"
      by (simp only: if_False)
    with r2 show ?thesis
      by blast
  next
    case True
    let ?bs = "take (nat ?W) q"
    have fits: "\<not> transferWindow ?s2 < int (length ?bs)"
      using W(1) by simp
    have shrink: "wrap64 (?W - int (length ?bs)) = ?W - int (length ?bs)"
      using W by (intro wrap64_id) auto
    have "\<exists>s3. Write ?bs ?s2 = Returns ((int (length ?bs), None), s3) \<and> ready s3"
      using assms(2) True fits W shrink
      by (auto simp add: Write_def Let_def WriteHeader_keeps andThen_def send_def ready_def
          simp del: length_take)
    then obtain s3 where "Write ?bs ?s2 = Returns ((int (length ?bs), None), s3)" and "ready s3"
      by blast
    moreover from step True have "receiveFrame (FWindowUpdate frame) s =
        andThen (Write ?bs ?s2) (\<lambda>((n, err), s3).
           case err of Some e \<Rightarrow> Panics (PanicError e) | None \<Rightarrow> Returns s3)"
      by (simp only: if_True)
    ultimately have "receiveFrame (FWindowUpdate frame) s = Returns s3"
      by (simp add: andThen_def del: receiveFrame.simps length_take)
    with \<open>ready s3\<close> show ?thesis
      by blast
  qed
qed

end
